theory Spec2Isabelle
  imports Complex_Main
begin

section \<open>The TIMIT example script (examples/timit.py)\<close>

text \<open>
  The script is one function, \<open>main\<close>: it reads the parsed command line, selects a layer
  class, a learning-rule class and a backend module from three dictionaries, and then
  drives the neko library, timit_tools, numpy, time and pickle in a straight line. None of
  those libraries is part of the repository, so they are a parameter of the model (an
  environment); \<open>main\<close> itself is embedded statement by statement.
\<close>

subsection \<open>Strings: \<open>str.lower\<close> and \<open>str(int)\<close>\<close>

text \<open>
  A Python string is modelled as a \<open>string\<close> whose characters are the code points below
  256 (Latin-1). On these, \<open>str.lower\<close> maps \<open>A\<close>..\<open>Z\<close> and the upper-case letters
  U+00C0..U+00DE (but not the multiplication sign U+00D7) to the code point 32 higher and
  leaves every other character alone.
\<close>

definition lower_char :: "char \<Rightarrow> char" where
  "lower_char c =
     (let k = (of_char c :: nat)
      in if (65 \<le> k \<and> k \<le> 90) \<or> (192 \<le> k \<and> k \<le> 222 \<and> k \<noteq> 215)
         then char_of (k + 32) else c)"

definition lower :: "string \<Rightarrow> string" where
  "lower s = map lower_char s"

definition digit_char :: "nat \<Rightarrow> char" where
  "digit_char d = char_of (48 + d)"

fun nat_digits :: "nat \<Rightarrow> string" where
  "nat_digits k =
     (if k < 10 then [digit_char k] else nat_digits (k div 10) @ [digit_char (k mod 10)])"

declare nat_digits.simps [simp del]

text \<open>\<open>str(i)\<close> for an integer: decimal digits, with a minus sign when negative.\<close>

definition str_int :: "int \<Rightarrow> string" where
  "str_int i = (if i < 0 then CHR ''-'' # nat_digits (nat (- i)) else nat_digits (nat i))"

subsection \<open>Values\<close>

text \<open>
  A Python float is a finite (dyadic) rational, an infinity or NaN. The script does no
  float arithmetic of its own; the only operation it applies to a float is \<open>int\<close>.
\<close>

datatype pyfloat = Finite rat | PosInf | NegInf | NaN

text \<open>
  Exceptions: the \<open>KeyError\<close> of a dictionary lookup (with its key), the two errors of
  \<open>int\<close> on a float, and an exception object raised inside a library call.
\<close>

datatype 'o exn = KeyError string | ValueError | OverflowError | Raised 'o

text \<open>\<open>int(x)\<close> on a float truncates towards zero; it raises on NaN and on infinities.\<close>

fun py_int :: "pyfloat \<Rightarrow> 'o exn + int" where
  "py_int (Finite r) = Inr (if 0 \<le> r then \<lfloor>r\<rfloor> else \<lceil>r\<rceil>)"
| "py_int NaN = Inl ValueError"
| "py_int PosInf = Inl OverflowError"
| "py_int NegInf = Inl OverflowError"

text \<open>
  The values a dictionary entry of the result record can hold; \<open>'o\<close> is the type of the
  objects of the libraries (arrays, models, logs, files), which the script only passes on.
\<close>

datatype 'o pyval = PNone | PBool bool | PInt int | PFloat pyfloat | PStr string | PObj 'o

type_synonym 'o dict = "(string \<times> 'o pyval) list"

text \<open>
  A dictionary keeps its keys in insertion order. \<open>d[k]\<close> raises \<open>KeyError\<close> on a
  missing key; \<open>d[k] = v\<close> replaces the value of a key that is present and appends the
  key otherwise.
\<close>

definition getitem :: "(string \<times> 'a) list \<Rightarrow> string \<Rightarrow> 'o exn + 'a" where
  "getitem d k = (case map_of d k of None \<Rightarrow> Inl (KeyError k) | Some v \<Rightarrow> Inr v)"

fun setitem :: "(string \<times> 'a) list \<Rightarrow> string \<Rightarrow> 'a \<Rightarrow> (string \<times> 'a) list" where
  "setitem [] k v = [(k, v)]"
| "setitem ((k', v') # d) k v =
     (if k' = k then (k, v) # d else (k', v') # setitem d k v)"

subsection \<open>The parsed command line\<close>

text \<open>
  The namespace that \<open>parser.parse_args()\<close> returns: one attribute per option, with the
  type argparse converts it to. \<open>--seed\<close> defaults to \<open>None\<close>.
\<close>

record args =
  seed :: "int option"
  backend :: string
  epoch :: int
  batch_size :: int
  learning_rule :: string
  layer :: string
  hidden :: int
  firing_thresh :: pyfloat
  learning_rate :: pyfloat
  eprop_mode :: string
  reg :: bool
  reg_coeff :: pyfloat
  reg_target :: int

text \<open>
  The defaults of the thirteen \<open>add_argument\<close> calls. The float defaults are the doubles
  that the literals \<open>1.0\<close>, \<open>0.001\<close> and \<open>0.00005\<close> denote.
\<close>

definition default_args :: args where
  "default_args =
     \<lparr> seed = None, backend = ''pytorch'', epoch = 30, batch_size = 32,
       learning_rule = ''eprop'', layer = ''ALIF'', hidden = 200,
       firing_thresh = Finite 1, learning_rate = Finite (1152921504606847 / 2 ^ 60),
       eprop_mode = ''adaptive'', reg = False,
       reg_coeff = Finite (7378697629483821 / 2 ^ 67),
       reg_target = 10 \<rparr>"

text \<open>\<open>vars(args)\<close>: the namespace as a dictionary, in the order the options were added.\<close>

definition vars :: "args \<Rightarrow> 'o dict" where
  "vars a =
     [ (''seed'', case seed a of None \<Rightarrow> PNone | Some i \<Rightarrow> PInt i),
       (''backend'', PStr (backend a)),
       (''epoch'', PInt (epoch a)),
       (''batch_size'', PInt (batch_size a)),
       (''learning_rule'', PStr (learning_rule a)),
       (''layer'', PStr (layer a)),
       (''hidden'', PInt (hidden a)),
       (''firing_thresh'', PFloat (firing_thresh a)),
       (''learning_rate'', PFloat (learning_rate a)),
       (''eprop_mode'', PStr (eprop_mode a)),
       (''reg'', PBool (reg a)),
       (''reg_coeff'', PFloat (reg_coeff a)),
       (''reg_target'', PInt (reg_target a)) ]"

subsection \<open>The dispatch tables\<close>

datatype layer_cls = BasicRNNModel | LIFRNNModel | ALIFRNNModel

datatype rule_cls = Backprop | Eprop

datatype backend_mod = pytb | tfb

definition layers :: "(string \<times> layer_cls) list" where
  "layers = [(''rnn'', BasicRNNModel), (''lif'', LIFRNNModel), (''alif'', ALIFRNNModel)]"

definition learning_rules :: "(string \<times> rule_cls) list" where
  "learning_rules = [(''bptt'', Backprop), (''eprop'', Eprop)]"

definition backends :: "(string \<times> backend_mod) list" where
  "backends =
     [(''torch'', pytb), (''pytorch'', pytb), (''pyt'', pytb), (''tf'', tfb),
      (''tensorflow'', tfb)]"

subsection \<open>The libraries as an environment\<close>

datatype nptype = float32

text \<open>
  The loss handed to \<open>Evaluator\<close> is either a name or the closure \<open>loss_with_reg\<close>. The
  closure is represented by what it captures: \<open>loss_fn\<close>, \<open>regularization_fn\<close> and
  \<open>args.reg_coeff\<close> (the namespace is captured by reference, and nothing assigns to
  \<open>reg_coeff\<close> afterwards).
\<close>

datatype 'o loss = LossName string | LossWithReg 'o 'o pyfloat

text \<open>
  Every call that leaves the script, with its arguments in the order of the source
  (keyword arguments in the order they are written):
  \<^item> \<open>TimitDataset(32, data_path=, preproc=, use_reduced_phonem_set=)\<close>;
  \<^item> \<open>dataset.get_train_batch()\<close>, \<open>dataset.get_test_batch()\<close>, \<open>a.astype(t)\<close>,
    the attribute \<open>dataset.n_phns\<close>, \<open>n.categorical_to_onehot(y, k)\<close>;
  \<^item> \<open>get_loss(name, backend=)\<close> with an optional \<open>firing_rate_target=\<close>;
  \<^item> \<open>fn(model=, x=, y_true=)\<close> for a loss function object, \<open>c * v\<close> for a float \<open>c\<close>
    and an object \<open>v\<close>, \<open>u + v\<close> for two objects (used by the closure);
  \<^item> \<open>layer(hidden, output_size=, backend=, task_type=, return_sequence=, v_th=, seed=)\<close>;
  \<^item> \<open>Evaluator(model=, loss=, metrics=)\<close>, \<open>Adam(learning_rate=)\<close>;
  \<^item> \<open>learning_rule(evaluated_model, optimizer=, mode=, firing_rate_regularization=,
    c_reg=, f_target=)\<close>;
  \<^item> \<open>Trainer(algo)\<close>, \<open>trainer.train(x, y, epochs=, batch_size=, validation_data=(xt, yt))\<close>,
    \<open>evaluated_model.evaluate(x, y, return_nparray=)\<close>;
  \<^item> \<open>print(s, v)\<close>, \<open>time.time()\<close>, \<open>open(name, mode)\<close>, \<open>pickle.dump(d, f)\<close> and the
    \<open>__exit__\<close> of the file at the end of the \<open>with\<close> block.
\<close>

datatype 'o call =
    TimitDataset int string string bool
  | Get_train_batch 'o
  | Get_test_batch 'o
  | Astype 'o nptype
  | N_phns 'o
  | Categorical_to_onehot backend_mod 'o 'o
  | Get_loss string backend_mod "int option"
  | Call_loss 'o 'o 'o 'o
  | Float_mul pyfloat 'o
  | Obj_add 'o 'o
  | New_layer layer_cls int 'o backend_mod string bool pyfloat "int option"
  | Evaluator 'o "'o loss" "string list"
  | Adam pyfloat
  | New_rule rule_cls 'o 'o string bool pyfloat int
  | Trainer 'o
  | Train 'o 'o 'o int int "'o \<times> 'o"
  | Evaluate 'o 'o 'o bool
  | Print string 'o
  | Time_time
  | Open_file string string
  | Pickle_dump "'o dict" 'o
  | File_exit 'o

text \<open>What a call returned: an object, the four-tuple of a batch, or a float.\<close>

datatype 'o ret = RObj 'o | RBatch 'o 'o 'o 'o | RFloat pyfloat

text \<open>
  The environment answers a call in a world \<open>'w\<close> (everything outside the script: the
  library objects' contents, the file system, the clock) with an exception or a result,
  and a new world. \<open>lib\<close> answers the calls that return an object, \<open>batch\<close> the two
  calls whose result the script unpacks into four names, \<open>clock\<close> is \<open>time.time()\<close>.
\<close>

record ('o, 'w) env =
  lib :: "'o call \<Rightarrow> 'w \<Rightarrow> ('o exn + 'o) \<times> 'w"
  batch :: "'o call \<Rightarrow> 'w \<Rightarrow> ('o exn + 'o \<times> 'o \<times> 'o \<times> 'o) \<times> 'w"
  clock :: "'w \<Rightarrow> ('o exn + pyfloat) \<times> 'w"

text \<open>
  The state of a run: the world, and the trace of the calls made so far, each with its
  outcome (\<open>Inl\<close> the exception it raised, \<open>Inr\<close> what it returned).
\<close>

type_synonym 'o event = "'o call \<times> ('o exn + 'o ret)"

type_synonym ('o, 'w) state = "'w \<times> 'o event list"

type_synonym ('a, 'o, 'w) M = "('o, 'w) state \<Rightarrow> ('o exn + 'a) \<times> ('o, 'w) state"

definition returnM :: "'a \<Rightarrow> ('a, 'o, 'w) M" where
  "returnM a = (\<lambda>s. (Inr a, s))"

text \<open>A pure computation that may raise.\<close>

definition liftM :: "'o exn + 'a \<Rightarrow> ('a, 'o, 'w) M" where
  "liftM r = (\<lambda>s. (r, s))"

text \<open>Sequencing: an exception of the first part ends the run; there is no handler.\<close>

definition bindM :: "('a, 'o, 'w) M \<Rightarrow> ('a \<Rightarrow> ('b, 'o, 'w) M) \<Rightarrow> ('b, 'o, 'w) M" where
  "bindM m f = (\<lambda>s. case m s of (Inl e, s') \<Rightarrow> (Inl e, s') | (Inr a, s') \<Rightarrow> f a s')"

definition call :: "('o, 'w) env \<Rightarrow> 'o call \<Rightarrow> ('o, 'o, 'w) M" where
  "call E c = (\<lambda>(w, tr). case lib E c w of (r, w') \<Rightarrow> (r, (w', tr @ [(c, map_sum id RObj r)])))"

definition call_batch :: "('o, 'w) env \<Rightarrow> 'o call \<Rightarrow> ('o \<times> 'o \<times> 'o \<times> 'o, 'o, 'w) M" where
  "call_batch E c =
     (\<lambda>(w, tr). case batch E c w of
        (r, w') \<Rightarrow> (r, (w', tr @ [(c, map_sum id (\<lambda>(x, y, u, v). RBatch x y u v) r)])))"

definition time_time :: "('o, 'w) env \<Rightarrow> (pyfloat, 'o, 'w) M" where
  "time_time E =
     (\<lambda>(w, tr). case clock E w of
        (r, w') \<Rightarrow> (r, (w', tr @ [(Time_time, map_sum id RFloat r)])))"

text \<open>
  \<open>with open(name, mode) as f: body\<close>: the file is opened, the body runs, and the file's
  \<open>__exit__\<close> runs whether or not the body raised. An exception of the body is raised
  again after \<open>__exit__\<close> returns; an exception of \<open>__exit__\<close> itself replaces it.
\<close>

definition with_open ::
  "('o, 'w) env \<Rightarrow> string \<Rightarrow> string \<Rightarrow> ('o \<Rightarrow> ('a, 'o, 'w) M) \<Rightarrow> ('a, 'o, 'w) M" where
  "with_open E name mode body =
     bindM (call E (Open_file name mode)) (\<lambda>f s.
       case body f s of
         (r, s') \<Rightarrow> (case call E (File_exit f) s' of
                       (Inl e, s'') \<Rightarrow> (Inl e, s'')
                     | (Inr _, s'') \<Rightarrow> (r, s'')))"

subsection \<open>The closure \<open>loss_with_reg\<close>\<close>


subsection \<open>\<open>main\<close>\<close>

definition main :: "('o, 'w) env \<Rightarrow> args \<Rightarrow> (unit, 'o, 'w) M" where
  "main E a =
     bindM (liftM (getitem layers (lower (layer a)))) (\<lambda>layer_c.
     bindM (liftM (getitem learning_rules (lower (learning_rule a)))) (\<lambda>rule_c.
     bindM (liftM (getitem backends (lower (backend a)))) (\<lambda>n.
     bindM (call E (TimitDataset 32 ''timit_processed'' ''mfccs'' False)) (\<lambda>dataset.
     bindM (call_batch E (Get_train_batch dataset)) (\<lambda>(x_train, y_train, _, _).
     bindM (call_batch E (Get_test_batch dataset)) (\<lambda>(x_test, y_test, _, _).
     bindM (call E (Astype x_train float32)) (\<lambda>x_train.
     bindM (call E (Astype y_train float32)) (\<lambda>y_train.
     bindM (call E (Astype x_test float32)) (\<lambda>x_test.
     bindM (call E (Astype y_test float32)) (\<lambda>y_test.
     bindM (call E (N_phns dataset)) (\<lambda>k.
     bindM (call E (Categorical_to_onehot n y_train k)) (\<lambda>y_train.
     bindM (call E (N_phns dataset)) (\<lambda>k.
     bindM (call E (Categorical_to_onehot n y_test k)) (\<lambda>y_test.
     bindM (if lower (learning_rule a) = ''bptt'' \<and> reg a
            then bindM (call E (Get_loss ''categorical_crossentropy'' n None)) (\<lambda>loss_fn.
                 bindM (call E (Get_loss ''firing_rate_regularization'' n (Some (reg_target a))))
                   (\<lambda>regularization_fn.
                 returnM (LossWithReg loss_fn regularization_fn (reg_coeff a))))
            else returnM (LossName ''categorical_crossentropy'')) (\<lambda>loss.
     bindM (call E (N_phns dataset)) (\<lambda>k.
     bindM (call E (New_layer layer_c (hidden a) k n ''classification'' True
                      (firing_thresh a) (seed a))) (\<lambda>rnn.
     bindM (call E (Evaluator rnn loss [''accuracy'', ''firing_rate''])) (\<lambda>evaluated_model.
     bindM (call E (Adam (learning_rate a))) (\<lambda>optimizer.
     bindM (call E (New_rule rule_c evaluated_model optimizer (eprop_mode a) (reg a)
                      (reg_coeff a) (reg_target a))) (\<lambda>algo.
     bindM (call E (Trainer algo)) (\<lambda>trainer.
     bindM (call E (Train trainer x_train y_train (epoch a) (batch_size a) (x_test, y_test)))
       (\<lambda>training_log.
     bindM (call E (Evaluate evaluated_model x_test y_test True)) (\<lambda>test_result.
     bindM (call E (Print ''Test: '' test_result)) (\<lambda>_.
     bindM (time_time E) (\<lambda>t.
     bindM (liftM (py_int t)) (\<lambda>completion_time.
     let task_log = vars a;
         task_log = setitem task_log ''name'' (PStr ''timit'');
         task_log = setitem task_log ''log'' (PObj training_log);
         task_log = setitem task_log ''completion_time'' (PInt completion_time);
         task_log = setitem task_log ''test_result'' (PObj test_result)
     in with_open E (''timit_'' @ str_int completion_time @ ''.pkl'') ''wb'' (\<lambda>f.
          bindM (call E (Pickle_dump task_log f)) (\<lambda>_. returnM ()))
     ))))))))))))))))))))))))))"

subsection \<open>Reading a trace\<close>

definition is_train :: "'o call \<Rightarrow> bool" where
  "is_train c = (case c of Train _ _ _ _ _ _ \<Rightarrow> True | _ \<Rightarrow> False)"

definition is_evaluate :: "'o call \<Rightarrow> bool" where
  "is_evaluate c = (case c of Evaluate _ _ _ _ \<Rightarrow> True | _ \<Rightarrow> False)"

definition is_dump :: "'o call \<Rightarrow> bool" where
  "is_dump c = (case c of Pickle_dump _ _ \<Rightarrow> True | _ \<Rightarrow> False)"

definition is_open :: "'o call \<Rightarrow> bool" where
  "is_open c = (case c of Open_file _ _ \<Rightarrow> True | _ \<Rightarrow> False)"

definition is_astype :: "'o call \<Rightarrow> bool" where
  "is_astype c = (case c of Astype _ _ \<Rightarrow> True | _ \<Rightarrow> False)"

definition is_onehot :: "'o call \<Rightarrow> bool" where
  "is_onehot c = (case c of Categorical_to_onehot _ _ _ \<Rightarrow> True | _ \<Rightarrow> False)"




text \<open>A call that returned (did not raise).\<close>

definition returned :: "'o event \<Rightarrow> bool" where
  "returned ev = (case snd ev of Inl _ \<Rightarrow> False | Inr _ \<Rightarrow> True)"


text \<open>The calls of \<open>trainer.train\<close>, of \<open>evaluate\<close> and of \<open>pickle.dump\<close> in a trace.\<close>

definition train_calls :: "'o event list \<Rightarrow> 'o event list" where
  "train_calls tr = filter (\<lambda>ev. is_train (fst ev)) tr"

definition evaluate_calls :: "'o event list \<Rightarrow> 'o event list" where
  "evaluate_calls tr = filter (\<lambda>ev. is_evaluate (fst ev)) tr"

definition dump_calls :: "'o event list \<Rightarrow> 'o event list" where
  "dump_calls tr = filter (\<lambda>ev. is_dump (fst ev)) tr"

text \<open>The trace of a finished run.\<close>

definition trace_of :: "('o exn + 'a) \<times> ('o, 'w) state \<Rightarrow> 'o event list" where
  "trace_of x = snd (snd x)"

subsection \<open>Where \<open>--batch_size\<close> goes\<close>

text \<open>
  A call with the two places blanked where the value of \<open>--batch_size\<close> can stand: the
  \<open>batch_size=\<close> argument of \<open>trainer.train\<close> and the entry \<open>batch_size\<close> of the pickled
  dictionary.
\<close>

definition forget_batch_size :: "'o call \<Rightarrow> 'o call" where
  "forget_batch_size c =
     (case c of
        Train t x y ep bs v \<Rightarrow> Train t x y ep 0 v
      | Pickle_dump d f \<Rightarrow> Pickle_dump (setitem d ''batch_size'' PNone) f
      | _ \<Rightarrow> c)"

definition forget_event :: "'o event \<Rightarrow> 'o event" where
  "forget_event ev = (forget_batch_size (fst ev), snd ev)"

text \<open>
  Two computations are alike up to \<open>--batch_size\<close> when, started in the same world with
  traces that agree after blanking, they end with the same outcome, the same world and
  traces that agree after blanking.
\<close>

definition alike :: "('a, 'o, 'w) M \<Rightarrow> ('a, 'o, 'w) M \<Rightarrow> bool" where
  "alike m1 m2 =
     (\<forall>w tr1 tr2. map forget_event tr1 = map forget_event tr2 \<longrightarrow>
        fst (m1 (w, tr1)) = fst (m2 (w, tr2)) \<and>
        fst (snd (m1 (w, tr1))) = fst (snd (m2 (w, tr2))) \<and>
        map forget_event (snd (snd (m1 (w, tr1)))) = map forget_event (snd (snd (m2 (w, tr2)))))"

subsection \<open>Two concrete environments\<close>

text \<open>
  Objects are numbered; the world is the next free number. In \<open>env_ok\<close> every call
  returns a fresh object and the clock shows 12.5. In \<open>env_train_fails\<close> the call of
  \<open>trainer.train\<close> raises the exception object 99.
\<close>

definition env_ok :: "(nat, nat) env" where
  "env_ok =
     \<lparr> lib = (\<lambda>c w. (Inr w, w + 1)),
       batch = (\<lambda>c w. (Inr (w, w + 1, w + 2, w + 3), w + 4)),
       clock = (\<lambda>w. (Inr (Finite (25 / 2)), w)) \<rparr>"


section \<open>Rules for running the script\<close>

subsection \<open>Forwards: computing a run\<close>

lemma bindM_call:
  "bindM (call E c) f (w, tr) =
     (case lib E c w of
        (Inl e, w') \<Rightarrow> (Inl e, (w', tr @ [(c, Inl e)]))
      | (Inr v, w') \<Rightarrow> f v (w', tr @ [(c, Inr (RObj v))]))"
  by (simp add: bindM_def call_def split: prod.splits sum.splits)

lemma bindM_call_batch:
  "bindM (call_batch E c) f (w, tr) =
     (case batch E c w of
        (Inl e, w') \<Rightarrow> (Inl e, (w', tr @ [(c, Inl e)]))
      | (Inr (x, y, u, v), w') \<Rightarrow> f (x, y, u, v) (w', tr @ [(c, Inr (RBatch x y u v))]))"
  by (simp add: bindM_def call_batch_def split: prod.splits sum.splits)

lemma bindM_liftM:
  "bindM (liftM x) f s = (case x of Inl e \<Rightarrow> (Inl e, s) | Inr v \<Rightarrow> f v s)"
  by (simp add: bindM_def liftM_def split: sum.splits)

lemma bindM_returnM: "bindM (returnM v) f s = f v s"
  by (simp add: bindM_def returnM_def)

lemma bindM_time:
  "bindM (time_time E) f (w, tr) =
     (case clock E w of
        (Inl e, w') \<Rightarrow> (Inl e, (w', tr @ [(Time_time, Inl e)]))
      | (Inr t, w') \<Rightarrow> f t (w', tr @ [(Time_time, Inr (RFloat t))]))"
  by (simp add: bindM_def time_time_def split: prod.splits sum.splits)

lemma bindM_assoc: "bindM (bindM m f) g = bindM m (\<lambda>x. bindM (f x) g)"
  by (auto simp: bindM_def fun_eq_iff split: prod.splits sum.splits)

lemma with_open_dump:
  "with_open E name mode (\<lambda>f. bindM (call E (c f)) (\<lambda>_. returnM ())) (w, tr) =
     (case lib E (Open_file name mode) w of
        (Inl e, w1) \<Rightarrow> (Inl e, (w1, tr @ [(Open_file name mode, Inl e)]))
      | (Inr f, w1) \<Rightarrow>
          (case lib E (c f) w1 of
             (d, w2) \<Rightarrow>
               (case lib E (File_exit f) w2 of
                  (x, w3) \<Rightarrow>
                    ((case x of Inl e \<Rightarrow> Inl e
                      | Inr _ \<Rightarrow> (case d of Inl e \<Rightarrow> Inl e | Inr _ \<Rightarrow> Inr ())),
                     (w3, tr @ [(Open_file name mode, Inr (RObj f)), (c f, map_sum id RObj d),
                                (File_exit f, map_sum id RObj x)])))))"
  by (auto simp: with_open_def bindM_def call_def returnM_def split: prod.splits sum.splits)


lemmas run_simps =
  bindM_call bindM_call_batch bindM_liftM bindM_returnM bindM_time bindM_assoc with_open_dump

subsection \<open>Backwards: the cases of a run\<close>

lemma bindM_getitemE:
  assumes "bindM (liftM (getitem d k)) f s = (r, s')"
  obtains (raise) "map_of d k = None" "r = Inl (KeyError k)" "s' = s"
        | (ok) v where "map_of d k = Some v" "f v s = (r, s')"
  using assms by (auto simp: bindM_def liftM_def getitem_def split: option.splits)

lemma bindM_liftE:
  assumes "bindM (liftM x) f s = (r, s')"
  obtains (raise) e where "x = Inl e" "r = Inl e" "s' = s"
        | (ok) v where "x = Inr v" "f v s = (r, s')"
  using assms by (cases x) (auto simp: bindM_def liftM_def)

lemma bindM_returnE:
  assumes "bindM (returnM v) f s = (r, s')"
  obtains "f v s = (r, s')"
  using assms by (auto simp: bindM_def returnM_def)

lemma bindM_callE:
  assumes "bindM (call E c) f (w, tr) = (r, s')"
  obtains (raise) e w1 where "r = Inl e" "s' = (w1, tr @ [(c, Inl e)])"
        | (ok) v w1 where "f v (w1, tr @ [(c, Inr (RObj v))]) = (r, s')"
  using assms by (auto simp: bindM_def call_def split: prod.splits sum.splits)

lemma bindM_call_batchE:
  assumes "bindM (call_batch E c) (\<lambda>(x, y, u, v). f x y u v) (w, tr) = (r, s')"
  obtains (raise) e w1 where "r = Inl e" "s' = (w1, tr @ [(c, Inl e)])"
        | (ok) x y u v w1 where
            "f x y u v (w1, tr @ [(c, Inr (RBatch x y u v))]) = (r, s')"
  using assms by (auto simp: bindM_def call_batch_def split: prod.splits sum.splits)

lemma bindM_timeE:
  assumes "bindM (time_time E) f (w, tr) = (r, s')"
  obtains (raise) e w1 where "r = Inl e" "s' = (w1, tr @ [(Time_time, Inl e)])"
        | (ok) t w1 where "f t (w1, tr @ [(Time_time, Inr (RFloat t))]) = (r, s')"
  using assms by (auto simp: bindM_def time_time_def split: prod.splits sum.splits)

lemma bindM_ifE:
  assumes "bindM (if b then m1 else m2) f s = (r, s')"
  obtains (true) "b" "bindM m1 f s = (r, s')" | (false) "\<not> b" "bindM m2 f s = (r, s')"
  using assms by (cases b) auto

lemma with_openE:
  assumes "with_open E name mode (\<lambda>f. bindM (call E (c f)) (\<lambda>_. returnM ())) (w, tr) = (r, s')"
  obtains (open_raise) e w1 where
      "r = Inl e" "s' = (w1, tr @ [(Open_file name mode, Inl e)])"
    | (body_raise) f e x w1 where "r = Inl e"
      "s' = (w1, tr @ [(Open_file name mode, Inr (RObj f)), (c f, Inl e),
                       (File_exit f, Inr (RObj x))])"
    | (both_raise) f e e' w1 where "r = Inl e'"
      "s' = (w1, tr @ [(Open_file name mode, Inr (RObj f)), (c f, Inl e),
                       (File_exit f, Inl e')])"
    | (exit_raise) f v e' w1 where "r = Inl e'"
      "s' = (w1, tr @ [(Open_file name mode, Inr (RObj f)), (c f, Inr (RObj v)),
                       (File_exit f, Inl e')])"
    | (ok) f v x w1 where "r = Inr ()"
      "s' = (w1, tr @ [(Open_file name mode, Inr (RObj f)), (c f, Inr (RObj v)),
                       (File_exit f, Inr (RObj x))])"
  using assms
  by (auto simp: with_open_def bindM_def call_def returnM_def split: prod.splits sum.splits)

lemmas stepE =
  bindM_getitemE bindM_liftE bindM_callE bindM_call_batchE bindM_timeE bindM_returnE
  with_openE bindM_ifE

text \<open>The end of a run: its outcome is known.\<close>

lemma leafE:
  fixes r :: "'e + unit"
  assumes "r = x" and "r = x \<Longrightarrow> P"
  shows P
  using assms by simp

subsection \<open>Two concrete runs\<close>

lemma lower_consts:
  "lower ''ALIF'' = ''alif''" "lower ''pytorch'' = ''pytorch''" "lower ''eprop'' = ''eprop''"
  "lower ''BPTT'' = ''bptt''" "lower ''gru'' = ''gru''" "lower ''torch'' = ''torch''"
  "lower ''pyt'' = ''pyt''" "lower ''PyTorch'' = ''pytorch''"
  by (simp_all add: lower_def lower_char_def char_of_eq_iff)

lemma str_int_12: "str_int 12 = ''12''"
  by (simp add: str_int_def nat_digits.simps digit_char_def char_of_eq_iff)

lemma floor_clock: "\<lfloor>(25::rat) / 2\<rfloor> = 12"
  by (simp add: floor_eq_iff)

lemma env_ok_run_plain:
  assumes "map_of layers (lower (layer a)) = Some lc"
    and "map_of learning_rules (lower (learning_rule a)) = Some rc"
    and "map_of backends (lower (backend a)) = Some n"
    and "\<not> (lower (learning_rule a) = ''bptt'' \<and> reg a)"
  shows "main env_ok a (0, []) =
    (Inr (), 29,
     [(TimitDataset 32 ''timit_processed'' ''mfccs'' False, Inr (RObj 0)),
      (Get_train_batch 0, Inr (RBatch 1 2 3 4)),
      (Get_test_batch 0, Inr (RBatch 5 6 7 8)),
      (Astype 1 float32, Inr (RObj 9)),
      (Astype 2 float32, Inr (RObj 10)),
      (Astype 5 float32, Inr (RObj 11)),
      (Astype 6 float32, Inr (RObj 12)),
      (N_phns 0, Inr (RObj 13)),
      (Categorical_to_onehot n 10 13, Inr (RObj 14)),
      (N_phns 0, Inr (RObj 15)),
      (Categorical_to_onehot n 12 15, Inr (RObj 16)),
      (N_phns 0, Inr (RObj 17)),
      (New_layer lc (hidden a) 17 n ''classification'' True (firing_thresh a) (seed a),
       Inr (RObj 18)),
      (Evaluator 18 (LossName ''categorical_crossentropy'') [''accuracy'', ''firing_rate''],
       Inr (RObj 19)),
      (Adam (learning_rate a), Inr (RObj 20)),
      (New_rule rc 19 20 (eprop_mode a) (reg a) (reg_coeff a) (reg_target a), Inr (RObj 21)),
      (Trainer 21, Inr (RObj 22)),
      (Train 22 9 14 (epoch a) (batch_size a) (11, 16), Inr (RObj 23)),
      (Evaluate 19 11 16 True, Inr (RObj 24)),
      (Print ''Test: '' 24, Inr (RObj 25)),
      (Time_time, Inr (RFloat (Finite (25 / 2)))),
      (Open_file ''timit_12.pkl'' ''wb'', Inr (RObj 26)),
      (Pickle_dump
         (vars a @ [(''name'', PStr ''timit''), (''log'', PObj 23),
                    (''completion_time'', PInt 12), (''test_result'', PObj 24)]) 26,
       Inr (RObj 27)),
      (File_exit 26, Inr (RObj 28))])"
  using assms(4) unfolding main_def Let_def
  by (simp add: run_simps getitem_def assms(1,2,3) env_ok_def floor_clock str_int_12 vars_def)



lemma reg_dispatch:
  "map_of layers (lower (layer (default_args\<lparr>reg := True\<rparr>))) = Some ALIFRNNModel"
  "map_of learning_rules (lower (learning_rule (default_args\<lparr>reg := True\<rparr>))) = Some Eprop"
  "map_of backends (lower (backend (default_args\<lparr>reg := True\<rparr>))) = Some pytb"
  "\<not> (lower (learning_rule (default_args\<lparr>reg := True\<rparr>)) = ''bptt'' \<and>
      reg (default_args\<lparr>reg := True\<rparr>))"
  by (simp_all add: default_args_def lower_consts layers_def learning_rules_def backends_def)


lemmas run_reg = env_ok_run_plain [OF reg_dispatch]


subsection \<open>The dispatch\<close>

lemma layers_keys: "map_of layers k = None \<longleftrightarrow> k \<notin> {''rnn'', ''lif'', ''alif''}"
  by (simp add: layers_def)

lemma learning_rules_keys: "map_of learning_rules k = None \<longleftrightarrow> k \<notin> {''bptt'', ''eprop''}"
  by (simp add: learning_rules_def)

lemma backends_keys:
  "map_of backends k = None \<longleftrightarrow> k \<notin> {''torch'', ''pytorch'', ''pyt'', ''tf'', ''tensorflow''}"
  by (simp add: backends_def)

lemma main_layer_missing:
  assumes "map_of layers (lower (layer a)) = None"
  shows "main E a s = (Inl (KeyError (lower (layer a))), s)"
  unfolding main_def by (simp add: bindM_liftM getitem_def assms)

lemma main_rule_missing:
  assumes "map_of layers (lower (layer a)) = Some lc"
    and "map_of learning_rules (lower (learning_rule a)) = None"
  shows "main E a s = (Inl (KeyError (lower (learning_rule a))), s)"
  unfolding main_def by (simp add: bindM_liftM getitem_def assms)

lemma main_backend_missing:
  assumes "map_of layers (lower (layer a)) = Some lc"
    and "map_of learning_rules (lower (learning_rule a)) = Some rc"
    and "map_of backends (lower (backend a)) = None"
  shows "main E a s = (Inl (KeyError (lower (backend a))), s)"
  unfolding main_def by (simp add: bindM_liftM getitem_def assms)

subsection \<open>A run in which training fails\<close>




section \<open>The claims\<close>

text \<open>
  C1. If the lowercased \<open>--layer\<close> is not one of \<open>rnn\<close>, \<open>lif\<close>, \<open>alif\<close>, or the lowercased
  \<open>--learning_rule\<close> is not one of \<open>bptt\<close>, \<open>eprop\<close>, or the lowercased \<open>--backend\<close> is not
  one of \<open>torch\<close>, \<open>pytorch\<close>, \<open>pyt\<close>, \<open>tf\<close>, \<open>tensorflow\<close>, then \<open>main\<close> raises
  \<open>KeyError\<close> with the first such key (in the order layer, learning rule, backend), in
  every environment and from every state, and it leaves the state as it was: the world is
  unchanged and the trace has no new call, so the dataset was not loaded, nothing was
  trained, and nothing was tried again.
\<close>

theorem unknown_key_raises_KeyError:
  fixes E :: "('o, 'w) env"
  assumes "lower (layer a) \<notin> {''rnn'', ''lif'', ''alif''} \<or>
           lower (learning_rule a) \<notin> {''bptt'', ''eprop''} \<or>
           lower (backend a) \<notin> {''torch'', ''pytorch'', ''pyt'', ''tf'', ''tensorflow''}"
  shows "main E a s =
           (Inl (KeyError
                   (if lower (layer a) \<notin> {''rnn'', ''lif'', ''alif''} then lower (layer a)
                    else if lower (learning_rule a) \<notin> {''bptt'', ''eprop''}
                         then lower (learning_rule a)
                         else lower (backend a))), s)"
proof (cases "map_of layers (lower (layer a))")
  case None
  then show ?thesis
    using main_layer_missing [OF None, of E s] by (simp add: layers_keys)
next
  case lc: (Some lc)
  then have l: "\<not> lower (layer a) \<notin> {''rnn'', ''lif'', ''alif''}"
    using layers_keys [of "lower (layer a)"] by simp
  show ?thesis
  proof (cases "map_of learning_rules (lower (learning_rule a))")
    case None
    then show ?thesis
      using main_rule_missing [OF lc None, of E s] l by (simp add: learning_rules_keys)
  next
    case rc: (Some rc)
    then have r: "\<not> lower (learning_rule a) \<notin> {''bptt'', ''eprop''}"
      using learning_rules_keys [of "lower (learning_rule a)"] by simp
    from assms l r have "map_of backends (lower (backend a)) = None"
      using backends_keys [of "lower (backend a)"] by blast
    from main_backend_missing [OF lc rc this, of E s] l r show ?thesis
      by simp
  qed
qed

theorem unknown_key_raises_KeyError_witness:
  "lower (layer (default_args\<lparr>layer := ''gru''\<rparr>)) \<notin> {''rnn'', ''lif'', ''alif''} \<and>
   main env_ok (default_args\<lparr>layer := ''gru''\<rparr>) (0, []) = (Inl (KeyError ''gru''), (0, []))"
proof -
  have bad: "lower (layer (default_args\<lparr>layer := ''gru''\<rparr>)) \<notin> {''rnn'', ''lif'', ''alif''}"
    by (simp add: lower_consts)
  then have "lower (layer (default_args\<lparr>layer := ''gru''\<rparr>)) \<notin> {''rnn'', ''lif'', ''alif''} \<or>
      lower (learning_rule (default_args\<lparr>layer := ''gru''\<rparr>)) \<notin> {''bptt'', ''eprop''} \<or>
      lower (backend (default_args\<lparr>layer := ''gru''\<rparr>))
        \<notin> {''torch'', ''pytorch'', ''pyt'', ''tf'', ''tensorflow''}"
    by (rule disjI1)
  from unknown_key_raises_KeyError [OF this, of env_ok "(0, [])"] bad show ?thesis
    by (simp add: lower_consts)
qed





text \<open>
  C7, as stated: in every run of \<open>main\<close>, \<open>trainer.train\<close> is invoked exactly once. This
  fails for a run that ends before training: with \<open>--layer gru\<close> the script raises
  \<open>KeyError\<close> at the first lookup and \<open>trainer.train\<close> is never invoked.
\<close>

theorem train_not_invoked_in_every_run:
  "main env_ok (default_args\<lparr>layer := ''gru''\<rparr>) (0, []) = (Inl (KeyError ''gru''), (0, [])) \<and>
   length (train_calls (trace_of (main env_ok (default_args\<lparr>layer := ''gru''\<rparr>) (0, [])))) = 0 \<and>
   length (train_calls (trace_of (main env_ok (default_args\<lparr>layer := ''gru''\<rparr>) (0, [])))) \<noteq> 1"
proof -
  have "map_of layers (lower (layer (default_args\<lparr>layer := ''gru''\<rparr>))) = None"
    by (simp add: lower_consts layers_def)
  from main_layer_missing [OF this, of env_ok "(0, [])"] show ?thesis
    by (simp add: lower_consts trace_of_def train_calls_def)
qed

text \<open>
  C7, amended. In every run of \<open>main\<close>, \<open>trainer.train\<close> is invoked at most once, and
  exactly once in every run that returns, in which \<open>Trainer(algo)\<close> returned, or in which
  evaluation or persistence (\<open>evaluate\<close>, \<open>open\<close>, \<open>pickle.dump\<close>) takes place. There is at
  most one \<open>evaluate\<close> call and at most one \<open>pickle.dump\<close> call; \<open>evaluate\<close> is called
  exactly once when the training call returned, and in a run that returns there is exactly
  one of each and all three calls returned. The evaluation and the persistence occur only
  after the training call returned: no such call stands before the first
  \<open>trainer.train\<close> call that returned. Training is never invoked again after them: no
  \<open>trainer.train\<close> call stands at or after the first evaluation or persistence call.
\<close>

theorem train_once_before_evaluation_and_pickling:
  fixes E :: "('o, 'w) env"
  assumes "main E a (w, []) = (r, (w', tr))"
  shows "length (train_calls tr) \<le> 1 \<and>
         (r = Inr () \<or> (\<exists>algo t. (Trainer algo, Inr (RObj t)) \<in> set tr) \<or>
          (\<exists>ev \<in> set tr. is_evaluate (fst ev) \<or> is_open (fst ev) \<or> is_dump (fst ev)) \<longrightarrow>
            length (train_calls tr) = 1) \<and>
         length (evaluate_calls tr) \<le> 1 \<and>
         length (dump_calls tr) \<le> 1 \<and>
         ((\<exists>ev \<in> set tr. is_train (fst ev) \<and> returned ev) \<longrightarrow>
            length (evaluate_calls tr) = 1) \<and>
         (r = Inr () \<longrightarrow>
            length (evaluate_calls tr) = 1 \<and> length (dump_calls tr) = 1 \<and>
            (\<forall>ev \<in> set tr. is_train (fst ev) \<or> is_evaluate (fst ev) \<or> is_dump (fst ev) \<longrightarrow>
               returned ev)) \<and>
         (\<forall>ev \<in> set (takeWhile (\<lambda>ev. \<not> (is_train (fst ev) \<and> returned ev)) tr).
            \<not> is_evaluate (fst ev) \<and> \<not> is_open (fst ev) \<and> \<not> is_dump (fst ev)) \<and>
         (\<forall>ev \<in> set (dropWhile (\<lambda>ev. \<not> (is_evaluate (fst ev) \<or> is_open (fst ev) \<or>
                                         is_dump (fst ev))) tr).
            \<not> is_train (fst ev))"
  apply (insert assms, unfold main_def Let_def)
  by (((erule stepE;
        ((erule leafE,
          simp add: train_calls_def evaluate_calls_def dump_calls_def is_train_def
            is_evaluate_def is_dump_def is_open_def returned_def; fail))?)
       | simp only: bindM_assoc)+)

theorem train_once_before_evaluation_and_pickling_witness:
  "length (train_calls (trace_of (main env_ok (default_args\<lparr>reg := True\<rparr>) (0, [])))) = 1 \<and>
   length (evaluate_calls (trace_of (main env_ok (default_args\<lparr>reg := True\<rparr>) (0, [])))) = 1 \<and>
   length (dump_calls (trace_of (main env_ok (default_args\<lparr>reg := True\<rparr>) (0, [])))) = 1 \<and>
   (\<exists>algo t. (Trainer algo, Inr (RObj t))
      \<in> set (trace_of (main env_ok (default_args\<lparr>reg := True\<rparr>) (0, []))))"
proof -
  let ?a = "default_args\<lparr>reg := True\<rparr>"
  let ?tr = "trace_of (main env_ok ?a (0, []))"
  have run: "main env_ok ?a (0, []) = (Inr (), 29, ?tr)"
    by (simp add: run_reg trace_of_def)
  have tra: "\<exists>algo t. (Trainer algo, Inr (RObj t)) \<in> set ?tr"
    unfolding trace_of_def run_reg by simp
  note T = train_once_before_evaluation_and_pickling [OF run]
  from T [THEN conjunct2, THEN conjunct1] have one: "length (train_calls ?tr) = 1"
    by simp
  from T [THEN conjunct2, THEN conjunct2, THEN conjunct2, THEN conjunct2, THEN conjunct2,
          THEN conjunct1]
  have two: "length (evaluate_calls ?tr) = 1 \<and> length (dump_calls ?tr) = 1"
    by simp
  from one two tra show ?thesis
    by simp
qed



end
